theory Spec2Isabelle
  imports Complex_Main "HOL-Library.Sublist" "HOL-Library.Char_ord" "HOL-Library.List_Lexorder"
begin

section \<open>Data model (types/dashboard.ts)\<close>

text \<open>
  The string-literal unions of the source (\<open>Department\<close>, \<open>CourseCategory\<close>,
  \<open>EnrollmentStatus\<close>) are strings at run time and are kept as strings here, so that the
  truthiness tests of the filter code (\<open>if (filters.department)\<close>) are modelled as
  JavaScript evaluates them. An optional field \<open>f?: T\<close> is a \<open>T option\<close>, with
  \<open>None\<close> for \<open>undefined\<close>. A \<open>number\<close> field holds a finite value and is an exact
  rational; a non-finite result (NaN, Infinity) of a division is \<open>None\<close> of
  \<open>rat option\<close>. Strings are lists of 8-bit characters. The \<open>Enumerable\<close> member of a
  \<open>QueryContext\<close> is the \<open>linq\<close> library itself and is not part of the data.
\<close>

type_synonym Department = string
type_synonym CourseCategory = string
type_synonym EnrollmentStatus = string

record User =
  user_id :: string
  user_fullName :: string
  user_department :: Department
  user_role :: string
  user_location :: string

record Course =
  course_id :: string
  course_title :: string
  course_category :: CourseCategory
  course_difficulty :: string
  course_hours :: rat

record Proctor =
  proctor_id :: string
  proctor_fullName :: string
  proctor_location :: string

record Enrollment =
  enr_id :: string
  enr_userId :: string
  enr_courseId :: string
  enr_proctorId :: string
  enr_status :: EnrollmentStatus
  enr_score :: rat
  enr_completedAt :: "string option"
  enr_hoursSpent :: rat

record MiniDatabase =
  db_users :: "User list"
  db_courses :: "Course list"
  db_proctors :: "Proctor list"
  db_enrollments :: "Enrollment list"

record DashboardFilters =
  flt_department :: "Department option"
  flt_courseCategory :: "CourseCategory option"
  flt_status :: "string option"
  flt_search :: "string option"

record QueryLookups =
  usersById :: "string \<rightharpoonup> User"
  coursesById :: "string \<rightharpoonup> Course"
  proctorsById :: "string \<rightharpoonup> Proctor"

record QueryContext =
  ctx_data :: MiniDatabase
  ctx_filters :: DashboardFilters
  ctx_lookups :: QueryLookups


section \<open>JavaScript primitives used by the helpers\<close>

text \<open>Truthiness of an optional string: \<open>undefined\<close> and the empty string are falsy.\<close>

definition truthy :: "string option \<Rightarrow> bool" where
  "truthy v = (case v of None \<Rightarrow> False | Some s \<Rightarrow> s \<noteq> [])"

text \<open>
  \<open>new Map(entries)\<close>: a later entry with the same key overwrites an earlier one, so the
  lookup finds the last entry of the list.
\<close>

definition newMap :: "('k \<times> 'v) list \<Rightarrow> ('k \<rightharpoonup> 'v)" where
  "newMap entries = map_of (rev entries)"

text \<open>\<open>String.prototype.toLowerCase\<close>, on the ASCII letters (other bytes are unchanged).\<close>

definition lowerChar :: "char \<Rightarrow> char" where
  "lowerChar c =
     (case map_of (zip ''ABCDEFGHIJKLMNOPQRSTUVWXYZ'' ''abcdefghijklmnopqrstuvwxyz'') c of
        None \<Rightarrow> c
      | Some l \<Rightarrow> l)"

definition toLowerCase :: "string \<Rightarrow> string" where
  "toLowerCase s = map lowerChar s"

text \<open>\<open>s.includes(t)\<close>: \<open>t\<close> occurs in \<open>s\<close> as a contiguous substring.\<close>

definition includes_str :: "string \<Rightarrow> string \<Rightarrow> bool" where
  "includes_str s t = sublist t s"


section \<open>Lookups and the global filter (utils/linqHelpers.ts)\<close>

definition createLookups :: "MiniDatabase \<Rightarrow> QueryLookups" where
  "createLookups d =
     \<lparr> usersById = newMap (map (\<lambda>u. (user_id u, u)) (db_users d)),
       coursesById = newMap (map (\<lambda>c. (course_id c, c)) (db_courses d)),
       proctorsById = newMap (map (\<lambda>p. (proctor_id p, p)) (db_proctors d)) \<rparr>"

definition createQueryContext :: "MiniDatabase \<Rightarrow> DashboardFilters \<Rightarrow> QueryContext" where
  "createQueryContext d f =
     \<lparr> ctx_data = d, ctx_filters = f, ctx_lookups = createLookups d \<rparr>"

text \<open>
  The four \<open>where\<close> predicates of \<open>filteredEnrollments\<close>. With optional chaining,
  \<open>lookups.usersById.get(id)?.department\<close> is \<open>undefined\<close> when the user is missing,
  and \<open>undefined === filters.department\<close> is false for the (truthy) filter value.
\<close>

definition statusPred :: "QueryContext \<Rightarrow> Enrollment \<Rightarrow> bool" where
  "statusPred ctx enrollment = (Some (enr_status enrollment) = flt_status (ctx_filters ctx))"

definition departmentPred :: "QueryContext \<Rightarrow> Enrollment \<Rightarrow> bool" where
  "departmentPred ctx enrollment =
     (map_option user_department (usersById (ctx_lookups ctx) (enr_userId enrollment))
        = flt_department (ctx_filters ctx))"

definition courseCategoryPred :: "QueryContext \<Rightarrow> Enrollment \<Rightarrow> bool" where
  "courseCategoryPred ctx enrollment =
     (map_option course_category (coursesById (ctx_lookups ctx) (enr_courseId enrollment))
        = flt_courseCategory (ctx_filters ctx))"

text \<open>
  The search predicate: \<open>a || b\<close> where each side is \<open>undefined\<close> (falsy) when its
  lookup fails, and otherwise the boolean of \<open>includes\<close>.
\<close>

definition searchPred :: "QueryContext \<Rightarrow> string \<Rightarrow> Enrollment \<Rightarrow> bool" where
  "searchPred ctx lowered enrollment =
     (let user = usersById (ctx_lookups ctx) (enr_userId enrollment);
          course = coursesById (ctx_lookups ctx) (enr_courseId enrollment)
      in (case user of None \<Rightarrow> False
            | Some u \<Rightarrow> includes_str (toLowerCase (user_fullName u)) lowered)
         \<or> (case course of None \<Rightarrow> False
            | Some c \<Rightarrow> includes_str (toLowerCase (course_title c)) lowered))"

definition filteredEnrollments :: "QueryContext \<Rightarrow> Enrollment list" where
  "filteredEnrollments ctx =
     (let filters = ctx_filters ctx;
          query = db_enrollments (ctx_data ctx);
          query = (if truthy (flt_status filters) \<and> flt_status filters \<noteq> Some ''all''
                   then filter (statusPred ctx) query else query);
          query = (if truthy (flt_department filters)
                   then filter (departmentPred ctx) query else query);
          query = (if truthy (flt_courseCategory filters)
                   then filter (courseCategoryPred ctx) query else query);
          query = (case flt_search filters of
                     None \<Rightarrow> query
                   | Some search \<Rightarrow>
                       if search \<noteq> [] then filter (searchPred ctx (toLowerCase search)) query
                       else query)
      in query)"



section \<open>Aggregation helpers (utils/linqHelpers.ts, utils/metrics.ts)\<close>

text \<open>
  The \<open>linq\<close> operators on a sequence are list functions: \<open>where\<close> is \<open>filter\<close>,
  \<open>select\<close> is \<open>map\<close>, \<open>count()\<close> is \<open>length\<close>, \<open>take\<close> is \<open>take\<close>, and
  \<open>sum\<close> adds the elements starting from 0.
\<close>

text \<open>
  A quotient \<open>a / b\<close> of two numbers: with \<open>b = 0\<close> JavaScript yields NaN or an
  infinity, which is the value \<open>None\<close> here; \<open>Number.isFinite\<close> holds of \<open>Some\<close> only.
\<close>

definition jsDivide :: "rat \<Rightarrow> rat \<Rightarrow> rat option" where
  "jsDivide a b = (if b = 0 then None else Some (a / b))"






definition enrollments :: "QueryContext \<Rightarrow> Enrollment list" where
  "enrollments ctx = filteredEnrollments ctx"

definition enrollmentsByStatus :: "EnrollmentStatus \<Rightarrow> QueryContext \<Rightarrow> Enrollment list" where
  "enrollmentsByStatus status ctx =
     filter (\<lambda>enrollment. enr_status enrollment = status) (enrollments ctx)"


definition activeEnrollments :: "QueryContext \<Rightarrow> Enrollment list" where
  "activeEnrollments = enrollmentsByStatus ''in-progress''"

definition failedEnrollments :: "QueryContext \<Rightarrow> Enrollment list" where
  "failedEnrollments = enrollmentsByStatus ''failed''"

definition totalEnrollmentCount :: "QueryContext \<Rightarrow> nat" where
  "totalEnrollmentCount ctx = length (enrollments ctx)"


definition activeEnrollmentCount :: "QueryContext \<Rightarrow> nat" where
  "activeEnrollmentCount ctx = length (activeEnrollments ctx)"

definition failedEnrollmentCount :: "QueryContext \<Rightarrow> nat" where
  "failedEnrollmentCount ctx = length (failedEnrollments ctx)"

text \<open>
  \<open>failureRate\<close>: the early return guards the division. The result is a JavaScript
  number, \<open>None\<close> if it were not finite.
\<close>

definition failureRate :: "QueryContext \<Rightarrow> rat option" where
  "failureRate ctx =
     (let total = totalEnrollmentCount ctx
      in if total = 0 then Some 0
         else jsDivide (of_nat (failedEnrollmentCount ctx)) (of_nat total))"




section \<open>The detail query of the card \<open>completed-total\<close> (config/cardConfigs.ts)\<close>



text \<open>
  A cell of a \<open>CardDetailRow\<close> (\<open>string | number | undefined | null\<close>); a row is
  the list of its properties, and a property that is omitted is absent from the list.
  \<open>LocaleDate s\<close> stands for the string \<open>new Date(s).toLocaleDateString()\<close>, which the
  host's locale and time zone determine.
\<close>

datatype cell = CString string | CNumber rat | LocaleDate string | CUndefined | CNull







section \<open>The cache key of the metrics engine (PRD.md, section 6)\<close>











section \<open>The filter context evaluator of the metrics engine (PRD.md, sections 4 and 5)\<close>

text \<open>
  The engine that PRD.md describes (\<open>applyContextToFact\<close>, the evaluation of metrics) is
  named there by its signatures only; its bodies are not part of the sources. The
  definitions of this section follow the specification.
\<close>

text \<open>
  Modelled from the spec: the values of a fact row (section 6: flat records), integers and
  strings; the engine's row type is missing from the sources.
\<close>

datatype scalar = Num int | Str string

text \<open>
  Modelled from the spec: one filter of a filter context (section 3): a scalar (equality),
  a range \<open>{from, to}\<close> or a comparison \<open>{lte | gte | lt | gt: value}\<close>; the engine's
  context type is missing from the sources.
\<close>

datatype contextFilter =
    Equals scalar
  | Range "scalar option" "scalar option"
  | Lte scalar | Gte scalar | Lt scalar | Gt scalar

type_synonym factRow = "(string \<times> scalar) list"
type_synonym filterContext = "(string \<times> contextFilter) list"

text \<open>
  Modelled from the spec: the order between two scalars (section 9: exact type and value
  match), which relates scalars of the same type only; the engine's comparison is missing
  from the sources.
\<close>

fun scalar_le :: "scalar \<Rightarrow> scalar \<Rightarrow> bool" where
  "scalar_le (Num a) (Num b) = (a \<le> b)"
| "scalar_le (Str a) (Str b) = (a \<le> b)"
| "scalar_le _ _ = False"

text \<open>
  Modelled from the spec: the strict order between two scalars of the same type, as for
  \<open>scalar_le\<close>.
\<close>

fun scalar_lt :: "scalar \<Rightarrow> scalar \<Rightarrow> bool" where
  "scalar_lt (Num a) (Num b) = (a < b)"
| "scalar_lt (Str a) (Str b) = (a < b)"
| "scalar_lt _ _ = False"

text \<open>
  Modelled from the spec: the test of one row value against one filter (section 4.1 of
  the specification; the engine's \<open>applyContextToFact\<close> is named in PRD.md but its body is
  not part of the sources). Equality is exact in type and value, a range is inclusive with
  an absent bound unbounded, a comparison is the single stated relation, and a row without
  the field fails.
\<close>

fun passesFilter :: "scalar option \<Rightarrow> contextFilter \<Rightarrow> bool" where
  "passesFilter None _ = False"
| "passesFilter (Some v) (Equals x) = (v = x)"
| "passesFilter (Some v) (Range lo hi) =
     ((case lo of None \<Rightarrow> True | Some l \<Rightarrow> scalar_le l v) \<and>
      (case hi of None \<Rightarrow> True | Some h \<Rightarrow> scalar_le v h))"
| "passesFilter (Some v) (Lte x) = scalar_le v x"
| "passesFilter (Some v) (Gte x) = scalar_le x v"
| "passesFilter (Some v) (Lt x) = scalar_lt v x"
| "passesFilter (Some v) (Gt x) = scalar_lt x v"

text \<open>
  Modelled from the spec: \<open>applyContextToFact(rows, context, grain)\<close> (section 4.1): a key
  of the context that is not in the grain is skipped, the other filters are conjoined, and
  the rows that pass keep their order. \<open>rowPasses\<close> is the test of one row.
\<close>

definition rowPasses :: "filterContext \<Rightarrow> string list \<Rightarrow> factRow \<Rightarrow> bool" where
  "rowPasses context grain row =
     list_all (\<lambda>(key, flt). key \<notin> set grain \<or> passesFilter (map_of row key) flt) context"

text \<open>
  Modelled from the spec: \<open>applyContextToFact\<close> itself, the stable filter of the rows by
  \<open>rowPasses\<close> (section 4.1); its body is missing from the sources.
\<close>

definition applyContextToFact :: "factRow list \<Rightarrow> filterContext \<Rightarrow> string list \<Rightarrow> factRow list" where
  "applyContextToFact rows context grain = filter (rowPasses context grain) rows"

text \<open>
  Modelled from the spec: the aggregations of a fact measure (section 4.2); the engine's
  metric registry is missing from the sources.
\<close>

datatype aggregation = Sum | Avg | Count | Min | Max

text \<open>
  Modelled from the spec: the two metric kinds that carry a grain (section 3):
  \<open>FactMeasure factTable factColumn agg grain\<close> and
  \<open>Expression factTable grain expression\<close>. A value is a number or null (\<open>None\<close>).
\<close>

datatype metric =
    FactMeasure string string aggregation "string list"
  | Expression string "string list" "factRow list \<Rightarrow> rat option"

text \<open>
  Modelled from the spec: the configuration error of section 7 (here: an unknown fact
  table).
\<close>

datatype evalError = ConfigurationError

text \<open>
  Modelled from the spec: the numbers that the rows hold in a fact column (section 4.2,
  "over the named fact column").
\<close>

definition columnValues :: "string \<Rightarrow> factRow list \<Rightarrow> int list" where
  "columnValues column rows =
     List.map_filter (\<lambda>row. case map_of row column of Some (Num n) \<Rightarrow> Some n | _ \<Rightarrow> None) rows"

text \<open>
  Modelled from the spec: the aggregation over a set of rows (section 4.2): on no rows
  \<open>sum\<close> and \<open>count\<close> are 0 and \<open>avg\<close>, \<open>min\<close>, \<open>max\<close> are null.
\<close>

fun aggregate :: "aggregation \<Rightarrow> string \<Rightarrow> factRow list \<Rightarrow> rat option" where
  "aggregate Sum column rows = Some (of_int (sum_list (columnValues column rows)))"
| "aggregate Count column rows = Some (of_nat (length rows))"
| "aggregate Avg column rows =
     (case columnValues column rows of [] \<Rightarrow> None
      | v # vs \<Rightarrow> Some (of_int (sum_list (v # vs)) / of_nat (length (v # vs))))"
| "aggregate Min column rows =
     (case columnValues column rows of [] \<Rightarrow> None
      | v # vs \<Rightarrow> Some (of_int (fold min vs v)))"
| "aggregate Max column rows =
     (case columnValues column rows of [] \<Rightarrow> None
      | v # vs \<Rightarrow> Some (of_int (fold max vs v)))"

text \<open>
  Modelled from the spec: \<open>evaluate\<close> for the two kinds with a grain (section 4.2): the
  rows of the metric's fact table are filtered with the metric's own grain and the given
  context, then aggregated over the fact column or handed to the metric's expression.
\<close>

fun evaluate :: "(string \<rightharpoonup> factRow list) \<Rightarrow> metric \<Rightarrow> filterContext \<Rightarrow> evalError + rat option" where
  "evaluate facts (FactMeasure factTable factColumn agg grain) context =
     (case facts factTable of
        None \<Rightarrow> Inl ConfigurationError
      | Some rows \<Rightarrow> Inr (aggregate agg factColumn (applyContextToFact rows context grain)))"
| "evaluate facts (Expression factTable grain expression) context =
     (case facts factTable of
        None \<Rightarrow> Inl ConfigurationError
      | Some rows \<Rightarrow> Inr (expression (applyContextToFact rows context grain)))"

text \<open>Modelled from the spec: the \<open>grain\<close> field of a metric (section 3).\<close>

fun metricGrain :: "metric \<Rightarrow> string list" where
  "metricGrain (FactMeasure factTable factColumn agg grain) = grain"
| "metricGrain (Expression factTable grain expression) = grain"


section \<open>A sample database\<close>

text \<open>
  A small database after the names that the repository's tests expect, with one failed
  enrollment and one enrollment whose user, course and proctor are in no table.
\<close>

definition alice :: User where
  "alice = \<lparr> user_id = ''u1'', user_fullName = ''Alice Johnson'',
             user_department = ''Engineering'', user_role = ''Engineer'',
             user_location = ''Berlin'' \<rparr>"

definition benjamin :: User where
  "benjamin = \<lparr> user_id = ''u2'', user_fullName = ''Benjamin Ortiz'',
                user_department = ''Finance'', user_role = ''Analyst'',
                user_location = ''Madrid'' \<rparr>"

definition securityCourse :: Course where
  "securityCourse = \<lparr> course_id = ''c1'', course_title = ''Security Essentials 1'',
                      course_category = ''Security'', course_difficulty = ''Beginner'',
                      course_hours = 6 \<rparr>"

definition leadershipCourse :: Course where
  "leadershipCourse = \<lparr> course_id = ''c2'', course_title = ''Leadership Essentials 1'',
                        course_category = ''Leadership'', course_difficulty = ''Advanced'',
                        course_hours = 4 \<rparr>"

definition olivia :: Proctor where
  "olivia = \<lparr> proctor_id = ''p1'', proctor_fullName = ''Olivia Roberts'',
              proctor_location = ''Oslo'' \<rparr>"

definition enrollmentA :: Enrollment where
  "enrollmentA = \<lparr> enr_id = ''e1'', enr_userId = ''u1'', enr_courseId = ''c1'',
                   enr_proctorId = ''p1'', enr_status = ''completed'', enr_score = 91,
                   enr_completedAt = Some ''2024-03-01'', enr_hoursSpent = 11 / 2 \<rparr>"

definition enrollmentB :: Enrollment where
  "enrollmentB = \<lparr> enr_id = ''e2'', enr_userId = ''u2'', enr_courseId = ''c2'',
                   enr_proctorId = ''p1'', enr_status = ''in-progress'', enr_score = 62,
                   enr_completedAt = None, enr_hoursSpent = 5 / 2 \<rparr>"

definition enrollmentFailed :: Enrollment where
  "enrollmentFailed = \<lparr> enr_id = ''e3'', enr_userId = ''u2'', enr_courseId = ''c1'',
                        enr_proctorId = ''p1'', enr_status = ''failed'', enr_score = 40,
                        enr_completedAt = None, enr_hoursSpent = 3 \<rparr>"

definition enrollmentOrphan :: Enrollment where
  "enrollmentOrphan = \<lparr> enr_id = ''e4'', enr_userId = ''u9'', enr_courseId = ''c9'',
                        enr_proctorId = ''p9'', enr_status = ''completed'', enr_score = 70,
                        enr_completedAt = None, enr_hoursSpent = 1 \<rparr>"

definition sampleData :: MiniDatabase where
  "sampleData = \<lparr> db_users = [alice, benjamin],
                  db_courses = [securityCourse, leadershipCourse],
                  db_proctors = [olivia],
                  db_enrollments = [enrollmentA, enrollmentB, enrollmentFailed, enrollmentOrphan] \<rparr>"

definition noFilters :: DashboardFilters where
  "noFilters = \<lparr> flt_department = None, flt_courseCategory = None,
                  flt_status = Some ''all'', flt_search = None \<rparr>"

definition engineeringSecurity :: DashboardFilters where
  "engineeringSecurity = \<lparr> flt_department = Some ''Engineering'',
                           flt_courseCategory = Some ''Security'',
                           flt_status = Some ''completed'', flt_search = Some ''ALICE'' \<rparr>"

definition searchLeadership :: DashboardFilters where
  "searchLeadership = \<lparr> flt_department = None, flt_courseCategory = None,
                        flt_status = Some ''all'', flt_search = Some ''LeaderShip'' \<rparr>"

definition salesDepartmentOnly :: DashboardFilters where
  "salesDepartmentOnly = \<lparr> flt_department = Some ''Sales'', flt_courseCategory = None,
                           flt_status = None, flt_search = None \<rparr>"

definition engineeringOnly :: DashboardFilters where
  "engineeringOnly = \<lparr> flt_department = Some ''Engineering'', flt_courseCategory = None,
                      flt_status = None, flt_search = None \<rparr>"

definition securityCategoryOnly :: DashboardFilters where
  "securityCategoryOnly = \<lparr> flt_department = None, flt_courseCategory = Some ''Security'',
                            flt_status = None, flt_search = Some [] \<rparr>"

text \<open>The two fact rows of the specification's end-to-end scenario, and one more product.\<close>

definition salesRows :: "factRow list" where
  "salesRows =
     [[(''year'', Num 2025), (''month'', Num 1), (''regionId'', Str ''NA''),
       (''productId'', Num 1), (''amount'', Num 100), (''quantity'', Num 10)],
      [(''year'', Num 2025), (''month'', Num 2), (''regionId'', Str ''NA''),
       (''productId'', Num 1), (''amount'', Num 200), (''quantity'', Num 10)],
      [(''year'', Num 2025), (''month'', Num 2), (''regionId'', Str ''NA''),
       (''productId'', Num 2), (''amount'', Num 50), (''quantity'', Num 5)]]"

definition salesFacts :: "string \<rightharpoonup> factRow list" where
  "salesFacts = [''sales'' \<mapsto> salesRows]"

definition salesByYearRegion :: metric where
  "salesByYearRegion = FactMeasure ''sales'' ''amount'' Sum [''year'', ''regionId'']"


section \<open>The global filter is a conjunction\<close>

lemma filteredEnrollments_as_filter:
  "filteredEnrollments ctx =
     filter (\<lambda>e.
        (truthy (flt_status (ctx_filters ctx)) \<and> flt_status (ctx_filters ctx) \<noteq> Some ''all''
           \<longrightarrow> statusPred ctx e) \<and>
        (truthy (flt_department (ctx_filters ctx)) \<longrightarrow> departmentPred ctx e) \<and>
        (truthy (flt_courseCategory (ctx_filters ctx)) \<longrightarrow> courseCategoryPred ctx e) \<and>
        (\<forall>search. flt_search (ctx_filters ctx) = Some search \<and> search \<noteq> []
           \<longrightarrow> searchPred ctx (toLowerCase search) e))
       (db_enrollments (ctx_data ctx))"
  by (auto simp: filteredEnrollments_def Let_def truthy_def split: option.splits intro: filter_cong)

lemma departmentPred_iff:
  "departmentPred ctx e \<longleftrightarrow>
     (case flt_department (ctx_filters ctx) of
        None \<Rightarrow> usersById (ctx_lookups ctx) (enr_userId e) = None
      | Some d \<Rightarrow> \<exists>u. usersById (ctx_lookups ctx) (enr_userId e) = Some u \<and> user_department u = d)"
  by (auto simp: departmentPred_def split: option.splits)

lemma courseCategoryPred_iff:
  "courseCategoryPred ctx e \<longleftrightarrow>
     (case flt_courseCategory (ctx_filters ctx) of
        None \<Rightarrow> coursesById (ctx_lookups ctx) (enr_courseId e) = None
      | Some c \<Rightarrow> \<exists>k. coursesById (ctx_lookups ctx) (enr_courseId e) = Some k \<and> course_category k = c)"
  by (auto simp: courseCategoryPred_def split: option.splits)

lemma searchPred_iff:
  "searchPred ctx lowered e \<longleftrightarrow>
     (\<exists>u. usersById (ctx_lookups ctx) (enr_userId e) = Some u
          \<and> sublist lowered (toLowerCase (user_fullName u))) \<or>
     (\<exists>k. coursesById (ctx_lookups ctx) (enr_courseId e) = Some k
          \<and> sublist lowered (toLowerCase (course_title k)))"
  by (auto simp: searchPred_def Let_def includes_str_def split: option.splits)

text \<open>
  Claim C5. An enrollment is in the output of \<open>filteredEnrollments\<close> if and only if it is
  an enrollment of the database and satisfies every filter that is active in the context:
  the status filter (set, and not \<open>'all'\<close>), the department filter, the course category
  filter and the search filter. The active filters are conjoined.
\<close>

theorem filteredEnrollments_conjunction:
  "e \<in> set (filteredEnrollments ctx) \<longleftrightarrow>
     e \<in> set (db_enrollments (ctx_data ctx)) \<and>
     (\<forall>s. flt_status (ctx_filters ctx) = Some s \<and> s \<noteq> [] \<and> s \<noteq> ''all''
        \<longrightarrow> enr_status e = s) \<and>
     (\<forall>d. flt_department (ctx_filters ctx) = Some d \<and> d \<noteq> []
        \<longrightarrow> (\<exists>u. usersById (ctx_lookups ctx) (enr_userId e) = Some u \<and> user_department u = d)) \<and>
     (\<forall>c. flt_courseCategory (ctx_filters ctx) = Some c \<and> c \<noteq> []
        \<longrightarrow> (\<exists>k. coursesById (ctx_lookups ctx) (enr_courseId e) = Some k
                 \<and> course_category k = c)) \<and>
     (\<forall>q. flt_search (ctx_filters ctx) = Some q \<and> q \<noteq> []
        \<longrightarrow> (\<exists>u. usersById (ctx_lookups ctx) (enr_userId e) = Some u
                 \<and> sublist (toLowerCase q) (toLowerCase (user_fullName u))) \<or>
            (\<exists>k. coursesById (ctx_lookups ctx) (enr_courseId e) = Some k
                 \<and> sublist (toLowerCase q) (toLowerCase (course_title k))))"
  unfolding filteredEnrollments_as_filter searchPred_iff
  by (auto simp: statusPred_def truthy_def departmentPred_iff courseCategoryPred_iff
      split: option.splits)

text \<open>
  With all four filters active, Alice's completed security enrollment is kept, and the
  theorem yields the user and the course that make it pass.
\<close>

theorem filteredEnrollments_conjunction_witness:
  "flt_status (ctx_filters (createQueryContext sampleData engineeringSecurity)) = Some ''completed''
   \<and> flt_department (ctx_filters (createQueryContext sampleData engineeringSecurity))
       = Some ''Engineering''
   \<and> flt_courseCategory (ctx_filters (createQueryContext sampleData engineeringSecurity))
       = Some ''Security''
   \<and> flt_search (ctx_filters (createQueryContext sampleData engineeringSecurity)) = Some ''ALICE''
   \<and> enrollmentA \<in> set (filteredEnrollments (createQueryContext sampleData engineeringSecurity))
   \<and> enr_status enrollmentA = ''completed''
   \<and> (\<exists>u. usersById (ctx_lookups (createQueryContext sampleData engineeringSecurity))
              (enr_userId enrollmentA) = Some u \<and> user_department u = ''Engineering'')
   \<and> (\<exists>k. coursesById (ctx_lookups (createQueryContext sampleData engineeringSecurity))
              (enr_courseId enrollmentA) = Some k \<and> course_category k = ''Security'')"
proof -
  have s: "flt_status (ctx_filters (createQueryContext sampleData engineeringSecurity))
             = Some ''completed''"
    by code_simp
  have d: "flt_department (ctx_filters (createQueryContext sampleData engineeringSecurity))
             = Some ''Engineering''"
    by code_simp
  have c: "flt_courseCategory (ctx_filters (createQueryContext sampleData engineeringSecurity))
             = Some ''Security''"
    by code_simp
  have q: "flt_search (ctx_filters (createQueryContext sampleData engineeringSecurity))
             = Some ''ALICE''"
    by code_simp
  have m: "enrollmentA
             \<in> set (filteredEnrollments (createQueryContext sampleData engineeringSecurity))"
    by code_simp
  show ?thesis
    using filteredEnrollments_conjunction
      [of enrollmentA "createQueryContext sampleData engineeringSecurity"] s d c q m
    by simp
qed


section \<open>Rows whose lookups are missing\<close>

text \<open>
  Claim C6. While a department filter is active, an enrollment whose \<open>userId\<close> resolves to
  no user is not in the output, and while a course category filter is active, an
  enrollment whose \<open>courseId\<close> resolves to no course is not in the output. The filter is a
  total function: the optional chaining of the source leaves no path that raises.
\<close>

theorem filteredEnrollments_missing_lookup:
  "(truthy (flt_department (ctx_filters ctx))
      \<and> usersById (ctx_lookups ctx) (enr_userId e) = None
      \<longrightarrow> e \<notin> set (filteredEnrollments ctx)) \<and>
   (truthy (flt_courseCategory (ctx_filters ctx))
      \<and> coursesById (ctx_lookups ctx) (enr_courseId e) = None
      \<longrightarrow> e \<notin> set (filteredEnrollments ctx))"
  unfolding filteredEnrollments_as_filter
  by (auto simp: truthy_def departmentPred_def courseCategoryPred_def split: option.splits)

theorem filteredEnrollments_missing_lookup_witness:
  "truthy (flt_department (ctx_filters (createQueryContext sampleData engineeringOnly)))
   \<and> usersById (ctx_lookups (createQueryContext sampleData engineeringOnly))
        (enr_userId enrollmentOrphan) = None
   \<and> enrollmentOrphan \<in> set (db_enrollments (ctx_data (createQueryContext sampleData engineeringOnly)))
   \<and> enrollmentOrphan \<notin> set (filteredEnrollments (createQueryContext sampleData engineeringOnly))
   \<and> truthy (flt_courseCategory (ctx_filters (createQueryContext sampleData securityCategoryOnly)))
   \<and> coursesById (ctx_lookups (createQueryContext sampleData securityCategoryOnly))
        (enr_courseId enrollmentOrphan) = None
   \<and> enrollmentOrphan
        \<notin> set (filteredEnrollments (createQueryContext sampleData securityCategoryOnly))"
proof -
  have d: "truthy (flt_department (ctx_filters (createQueryContext sampleData engineeringOnly)))"
    by code_simp
  have u: "usersById (ctx_lookups (createQueryContext sampleData engineeringOnly))
             (enr_userId enrollmentOrphan) = None"
    by code_simp
  have m: "enrollmentOrphan
             \<in> set (db_enrollments (ctx_data (createQueryContext sampleData engineeringOnly)))"
    by code_simp
  have c: "truthy (flt_courseCategory
             (ctx_filters (createQueryContext sampleData securityCategoryOnly)))"
    by code_simp
  have k: "coursesById (ctx_lookups (createQueryContext sampleData securityCategoryOnly))
             (enr_courseId enrollmentOrphan) = None"
    by code_simp
  show ?thesis
    using filteredEnrollments_missing_lookup
        [of "createQueryContext sampleData engineeringOnly" enrollmentOrphan]
      filteredEnrollments_missing_lookup
        [of "createQueryContext sampleData securityCategoryOnly" enrollmentOrphan]
      d u m c k
    by simp
qed


section \<open>The search filter\<close>

text \<open>
  Claim C10. With a non-empty search string in the context, \<open>filteredEnrollments\<close> keeps,
  of the enrollments that pass the other filters, exactly those for which the lower-cased
  search string is a substring of the lower-cased full name of the enrollment's user or of
  the lower-cased title of its course; an enrollment whose user and course are both
  missing from the lookups is not kept.
\<close>

theorem filteredEnrollments_search:
  assumes "flt_search (ctx_filters ctx) = Some q" and "q \<noteq> []"
  shows "filteredEnrollments ctx =
           filter (\<lambda>e.
               (\<exists>u. usersById (ctx_lookups ctx) (enr_userId e) = Some u
                    \<and> sublist (toLowerCase q) (toLowerCase (user_fullName u))) \<or>
               (\<exists>k. coursesById (ctx_lookups ctx) (enr_courseId e) = Some k
                    \<and> sublist (toLowerCase q) (toLowerCase (course_title k))))
             (filteredEnrollments (ctx\<lparr>ctx_filters := (ctx_filters ctx)\<lparr>flt_search := None\<rparr>\<rparr>))
         \<and> (usersById (ctx_lookups ctx) (enr_userId e) = None
                \<and> coursesById (ctx_lookups ctx) (enr_courseId e) = None
              \<longrightarrow> e \<notin> set (filteredEnrollments ctx))"
  using assms unfolding filteredEnrollments_as_filter searchPred_iff
  by (auto simp: statusPred_def departmentPred_def courseCategoryPred_def intro: filter_cong)

text \<open>
  The search \<open>LeaderShip\<close> finds the enrollment in the course "Leadership Essentials 1"
  whatever the case of the letters, and drops the enrollment without user and course.
\<close>

theorem filteredEnrollments_search_witness:
  "flt_search (ctx_filters (createQueryContext sampleData searchLeadership)) = Some ''LeaderShip''
   \<and> ''LeaderShip'' \<noteq> []
   \<and> usersById (ctx_lookups (createQueryContext sampleData searchLeadership))
        (enr_userId enrollmentOrphan) = None
   \<and> coursesById (ctx_lookups (createQueryContext sampleData searchLeadership))
        (enr_courseId enrollmentOrphan) = None
   \<and> enrollmentOrphan \<notin> set (filteredEnrollments (createQueryContext sampleData searchLeadership))
   \<and> filteredEnrollments (createQueryContext sampleData searchLeadership) = [enrollmentB]"
proof -
  have q: "flt_search (ctx_filters (createQueryContext sampleData searchLeadership))
             = Some ''LeaderShip''"
    by code_simp
  have n: "''LeaderShip'' \<noteq> []" by simp
  have u: "usersById (ctx_lookups (createQueryContext sampleData searchLeadership))
             (enr_userId enrollmentOrphan) = None"
    by code_simp
  have k: "coursesById (ctx_lookups (createQueryContext sampleData searchLeadership))
             (enr_courseId enrollmentOrphan) = None"
    by code_simp
  have r: "filteredEnrollments (createQueryContext sampleData searchLeadership) = [enrollmentB]"
    by code_simp
  show ?thesis
    using filteredEnrollments_search [OF q n, of enrollmentOrphan] q u k r by simp
qed


section \<open>The filter as an identity\<close>

text \<open>
  Claim C9. When the status filter is \<open>'all'\<close> or unset and no department, no course
  category and no search string is set (unset or empty), \<open>filteredEnrollments\<close> returns
  the database's enrollments unchanged, in their original order.
\<close>

theorem filteredEnrollments_identity:
  assumes "flt_status (ctx_filters ctx) = Some ''all'' \<or> \<not> truthy (flt_status (ctx_filters ctx))"
    and "\<not> truthy (flt_department (ctx_filters ctx))"
    and "\<not> truthy (flt_courseCategory (ctx_filters ctx))"
    and "\<not> truthy (flt_search (ctx_filters ctx))"
  shows "filteredEnrollments ctx = db_enrollments (ctx_data ctx)"
  using assms
  by (auto simp: filteredEnrollments_def Let_def truthy_def split: option.splits)

theorem filteredEnrollments_identity_witness:
  "(flt_status (ctx_filters (createQueryContext sampleData noFilters)) = Some ''all''
      \<or> \<not> truthy (flt_status (ctx_filters (createQueryContext sampleData noFilters))))
   \<and> \<not> truthy (flt_department (ctx_filters (createQueryContext sampleData noFilters)))
   \<and> \<not> truthy (flt_courseCategory (ctx_filters (createQueryContext sampleData noFilters)))
   \<and> \<not> truthy (flt_search (ctx_filters (createQueryContext sampleData noFilters)))
   \<and> filteredEnrollments (createQueryContext sampleData noFilters)
       = db_enrollments (ctx_data (createQueryContext sampleData noFilters))"
proof -
  have s: "flt_status (ctx_filters (createQueryContext sampleData noFilters)) = Some ''all''
      \<or> \<not> truthy (flt_status (ctx_filters (createQueryContext sampleData noFilters)))"
    by code_simp
  have d: "\<not> truthy (flt_department (ctx_filters (createQueryContext sampleData noFilters)))"
    by code_simp
  have c: "\<not> truthy (flt_courseCategory (ctx_filters (createQueryContext sampleData noFilters)))"
    by code_simp
  have q: "\<not> truthy (flt_search (ctx_filters (createQueryContext sampleData noFilters)))"
    by code_simp
  show ?thesis
    using filteredEnrollments_identity [OF s d c q] s d c q by blast
qed


section \<open>The failure rate\<close>

lemma failed_le_total: "failedEnrollmentCount ctx \<le> totalEnrollmentCount ctx"
  by (simp add: failedEnrollmentCount_def totalEnrollmentCount_def failedEnrollments_def
      enrollmentsByStatus_def)

text \<open>
  Claim C8. \<open>failureRate\<close> returns 0 when no enrollment passes the filter and the quotient
  of the failed count by the total count otherwise. The failed enrollments are among the
  filtered ones, so the result is always a finite number between 0 and 1: the division is
  never reached with a zero divisor.
\<close>

theorem failureRate_guarded:
  "(totalEnrollmentCount ctx = 0 \<longrightarrow> failureRate ctx = Some 0) \<and>
   (totalEnrollmentCount ctx \<noteq> 0 \<longrightarrow>
      failureRate ctx
        = Some (of_nat (failedEnrollmentCount ctx) / of_nat (totalEnrollmentCount ctx))) \<and>
   (\<exists>r. failureRate ctx = Some r \<and> 0 \<le> r \<and> r \<le> 1)"
  using failed_le_total [of ctx]
  by (auto simp: failureRate_def Let_def jsDivide_def divide_le_eq_1)

text \<open>
  One failed enrollment out of four gives a quarter; under a department filter that no
  user matches the total is 0 and so is the rate.
\<close>

theorem failureRate_guarded_witness:
  "totalEnrollmentCount (createQueryContext sampleData noFilters) \<noteq> 0
   \<and> failureRate (createQueryContext sampleData noFilters) = Some (1 / 4)
   \<and> totalEnrollmentCount (createQueryContext sampleData salesDepartmentOnly) = 0
   \<and> failureRate (createQueryContext sampleData salesDepartmentOnly) = Some 0"
proof -
  have t: "totalEnrollmentCount (createQueryContext sampleData noFilters) = 4"
    by code_simp
  have f: "failedEnrollmentCount (createQueryContext sampleData noFilters) = 1"
    by code_simp
  have z: "totalEnrollmentCount (createQueryContext sampleData salesDepartmentOnly) = 0"
    by code_simp
  show ?thesis
    using failureRate_guarded [of "createQueryContext sampleData noFilters"]
      failureRate_guarded [of "createQueryContext sampleData salesDepartmentOnly"] t f z
    by simp
qed


section \<open>Aggregation over no rows\<close>






section \<open>Missing lookups in the detail rows\<close>









section \<open>The cache key depends on the order of the context\<close>














section \<open>Filters outside the grain of a metric\<close>

lemma rowPasses_skip:
  "key \<notin> set grain \<Longrightarrow>
     rowPasses (before @ (key, flt) # after) grain row = rowPasses (before @ after) grain row"
  by (simp add: rowPasses_def)

lemma rowPasses_restrict:
  "rowPasses (filter (\<lambda>(key, flt). key \<in> set grain) fc) grain row = rowPasses fc grain row"
  by (induction fc) (auto simp: rowPasses_def)

lemma applyContextToFact_restrict:
  "applyContextToFact rows (filter (\<lambda>(key, flt). key \<in> set grain) context) grain
     = applyContextToFact rows context grain"
  by (simp add: applyContextToFact_def rowPasses_restrict cong: filter_cong)

lemma applyContextToFact_skip:
  "key \<notin> set grain \<Longrightarrow>
     applyContextToFact rows (before @ (key, flt) # after) grain
       = applyContextToFact rows (before @ after) grain"
  by (simp add: applyContextToFact_def rowPasses_skip cong: filter_cong)

text \<open>
  Claim C1. For a metric with a grain, a filter of the context whose key is not in the
  grain is skipped: evaluating the metric under a context with such a filter gives the
  result of evaluating it under the context without that filter, and dropping every
  filter outside the grain at once changes nothing either. For the grain
  \<open>['year', 'regionId']\<close>, the context \<open>{year: 2025, regionId: 'NA', productId: 1}\<close>
  gives the value of \<open>{year: 2025, regionId: 'NA'}\<close>.
\<close>

theorem grain_ignores_out_of_grain_filters:
  assumes "key \<notin> set (metricGrain m)"
  shows "evaluate facts m (before @ (key, flt) # after) = evaluate facts m (before @ after)
    \<and> evaluate facts m (filter (\<lambda>(key, flt). key \<in> set (metricGrain m)) context)
        = evaluate facts m context"
  using assms
  by (cases m)
    (simp_all add: applyContextToFact_skip applyContextToFact_restrict split: option.splits)

theorem grain_ignores_out_of_grain_filters_witness:
  "''productId'' \<notin> set (metricGrain salesByYearRegion)
   \<and> evaluate salesFacts salesByYearRegion
        [(''year'', Equals (Num 2025)), (''regionId'', Equals (Str ''NA'')),
         (''productId'', Equals (Num 1))]
     = evaluate salesFacts salesByYearRegion
        [(''year'', Equals (Num 2025)), (''regionId'', Equals (Str ''NA''))]
   \<and> evaluate salesFacts salesByYearRegion
        [(''year'', Equals (Num 2025)), (''regionId'', Equals (Str ''NA''))] = Inr (Some 350)
   \<and> evaluate salesFacts
        (FactMeasure ''sales'' ''amount'' Sum [''year'', ''regionId'', ''productId''])
        [(''year'', Equals (Num 2025)), (''regionId'', Equals (Str ''NA'')),
         (''productId'', Equals (Num 1))] = Inr (Some 300)"
proof -
  have g: "''productId'' \<notin> set (metricGrain salesByYearRegion)"
    by (simp add: salesByYearRegion_def)
  have v: "evaluate salesFacts salesByYearRegion
        [(''year'', Equals (Num 2025)), (''regionId'', Equals (Str ''NA''))] = Inr (Some 350)"
    by code_simp
  have w: "evaluate salesFacts
        (FactMeasure ''sales'' ''amount'' Sum [''year'', ''regionId'', ''productId''])
        [(''year'', Equals (Num 2025)), (''regionId'', Equals (Str ''NA'')),
         (''productId'', Equals (Num 1))] = Inr (Some 300)"
    by code_simp
  show ?thesis
    using grain_ignores_out_of_grain_filters [OF g, of salesFacts
        "[(''year'', Equals (Num 2025)), (''regionId'', Equals (Str ''NA''))]"
        "Equals (Num 1)" "[]" "[]"] g v w
    by simp
qed

end
